theory Spec2Isabelle
  imports Main "HOL-Library.AList" "HOL-Library.Sublist"
begin

section \<open>Python values\<close>

text \<open>
  The instrumentation reads request arguments and response objects of the client
  library.  Their values are modelled by one datatype: \<open>None\<close>, booleans, integers,
  strings, lists, dictionaries with string keys (association lists, in insertion order)
  and plain objects, given by their attribute dictionary (\<open>__dict__\<close>).  A string is the
  list of its code points, each below 256.  Floating-point numbers are not part of the
  value universe.
\<close>

datatype pyval =
    PNone
  | PBool bool
  | PInt int
  | PStr string
  | PList "pyval list"
  | PDict "(string \<times> pyval) list"
  | PObj "(string \<times> pyval) list"

text \<open>
  Exceptions, by class.  Every class here derives from \<open>Exception\<close>, which is what the
  \<open>except Exception\<close> clauses of the wrapper catch.  \<open>ClientError\<close> stands for the errors of
  the client library and of its token counter.
\<close>

datatype exn =
    AttributeError
  | TypeError
  | ImportError
  | IndexError
  | KeyError
  | ClientError string

text \<open>Truth value of an object, as \<open>if x:\<close> and \<open>x or y\<close> test it.\<close>

fun truthy :: "pyval \<Rightarrow> bool" where
  "truthy PNone = False"
| "truthy (PBool b) = b"
| "truthy (PInt n) = (n \<noteq> 0)"
| "truthy (PStr s) = (s \<noteq> [])"
| "truthy (PList xs) = (xs \<noteq> [])"
| "truthy (PDict kvs) = (kvs \<noteq> [])"
| "truthy (PObj attrs) = True"

text \<open>\<open>d.get(key)\<close> on a dictionary: the value, or \<open>None\<close> for a missing key.\<close>

definition dict_get :: "(string \<times> pyval) list \<Rightarrow> string \<Rightarrow> pyval" where
  "dict_get d key = (case map_of d key of None \<Rightarrow> PNone | Some v \<Rightarrow> v)"

text \<open>\<open>x.get(key)\<close> on any value: only a dictionary has the method.\<close>

fun py_get :: "pyval \<Rightarrow> string \<Rightarrow> exn + pyval" where
  "py_get (PDict d) key = Inr (dict_get d key)"
| "py_get v key = Inl AttributeError"

text \<open>\<open>x.attr\<close>: an attribute of an object; the other values have no data attributes.\<close>

fun py_getattr :: "pyval \<Rightarrow> string \<Rightarrow> exn + pyval" where
  "py_getattr (PObj attrs) a =
     (case map_of attrs a of None \<Rightarrow> Inl AttributeError | Some v \<Rightarrow> Inr v)"
| "py_getattr v a = Inl AttributeError"

text \<open>
  \<open>for x in v\<close>: a list yields its elements, a string its characters, a dictionary its
  keys; nothing else is iterable.
\<close>

fun py_iter :: "pyval \<Rightarrow> exn + pyval list" where
  "py_iter (PList xs) = Inr xs"
| "py_iter (PStr s) = Inr (map (\<lambda>c. PStr [c]) s)"
| "py_iter (PDict d) = Inr (map (\<lambda>kv. PStr (fst kv)) d)"
| "py_iter v = Inl TypeError"

text \<open>\<open>a + b\<close>: numbers add (booleans count as 0 and 1), strings and lists concatenate.\<close>

fun py_add :: "pyval \<Rightarrow> pyval \<Rightarrow> exn + pyval" where
  "py_add (PInt a) (PInt b) = Inr (PInt (a + b))"
| "py_add (PInt a) (PBool b) = Inr (PInt (a + of_bool b))"
| "py_add (PBool a) (PInt b) = Inr (PInt (of_bool a + b))"
| "py_add (PBool a) (PBool b) = Inr (PInt (of_bool a + of_bool b))"
| "py_add (PStr a) (PStr b) = Inr (PStr (a @ b))"
| "py_add (PList a) (PList b) = Inr (PList (a @ b))"
| "py_add a b = Inl TypeError"

text \<open>
  \<open>response.__dict__\<close> after the test \<open>isinstance(response, dict)\<close>: a dictionary is used
  as it is, an object gives its attribute dictionary, and the builtin values have none.
\<close>

fun as_dict :: "pyval \<Rightarrow> exn + (string \<times> pyval) list" where
  "as_dict (PDict d) = Inr d"
| "as_dict (PObj attrs) = Inr attrs"
| "as_dict v = Inl AttributeError"

subsection \<open>Decimal numerals and case conversion\<close>

definition digit_char :: "nat \<Rightarrow> char" where
  "digit_char d = char_of (48 + d)"

function str_of_nat :: "nat \<Rightarrow> string" where
  "str_of_nat n =
     (if n < 10 then [digit_char n] else str_of_nat (n div 10) @ [digit_char (n mod 10)])"
  by pat_completeness auto
termination
  by (relation "measure id") auto

definition str_of_int :: "int \<Rightarrow> string" where
  "str_of_int i = (if i < 0 then CHR ''-'' # str_of_nat (nat (- i)) else str_of_nat (nat i))"

text \<open>
  \<open>str.lower()\<close> on code points below 256: the letters A to Z and the accented capitals
  of the range 192 to 222 (the multiplication sign 215 apart) move up by 32.
\<close>

definition lower_char :: "char \<Rightarrow> char" where
  "lower_char c =
     (let n = (of_char c :: nat)
      in if (65 \<le> n \<and> n \<le> 90) \<or> (192 \<le> n \<and> n \<le> 222 \<and> n \<noteq> 215)
         then char_of (n + 32) else c)"

definition lower :: "string \<Rightarrow> string" where
  "lower s = map lower_char s"

section \<open>Ambient state: process environment and execution context\<close>

text \<open>
  What a call reads from outside its arguments: the process environment, the values of
  the current execution context, and \<open>py_repr\<close>, the printed form Python gives to a value
  that is not a string, a number, a boolean or \<open>None\<close> (it is fixed by the value's class,
  which is not part of this repository).
\<close>

record env =
  environ :: "string \<rightharpoonup> string"
  ctx_values :: "string \<rightharpoonup> pyval"
  py_repr :: "pyval \<Rightarrow> string"

text \<open>\<open>os.getenv(name)\<close>.\<close>

definition getenv :: "env \<Rightarrow> string \<Rightarrow> string option" where
  "getenv e name = environ e name"

text \<open>\<open>context_api.get_value(key)\<close>: \<open>None\<close> when the key is not set.\<close>

definition get_value :: "env \<Rightarrow> string \<Rightarrow> pyval" where
  "get_value e key = (case ctx_values e key of None \<Rightarrow> PNone | Some v \<Rightarrow> v)"

text \<open>
  \<open>os.getenv(name) or default\<close>: the default replaces an unset variable and an empty one.
\<close>

definition getenv_or :: "env \<Rightarrow> string \<Rightarrow> string \<Rightarrow> string" where
  "getenv_or e name dflt =
     (case getenv e name of None \<Rightarrow> dflt | Some v \<Rightarrow> if v = [] then dflt else v)"

text \<open>
  \<open>should_send_prompts\<close> returns what Python's \<open>or\<close> returns: \<open>True\<close> when the comparison
  holds, the context value otherwise.  Its callers test the truth value of the result.
\<close>

definition should_send_prompts :: "env \<Rightarrow> pyval" where
  "should_send_prompts e =
     (if lower (getenv_or e ''TRACELOOP_TRACE_CONTENT'' ''true'') = ''true''
      then PBool True
      else get_value e ''override_enable_content_tracing'')"

section \<open>Serialising message content\<close>

text \<open>\<open>str(x)\<close>.\<close>

fun py_str :: "(pyval \<Rightarrow> string) \<Rightarrow> pyval \<Rightarrow> string" where
  "py_str repr (PStr s) = s"
| "py_str repr PNone = ''None''"
| "py_str repr (PBool b) = (if b then ''True'' else ''False'')"
| "py_str repr (PInt i) = str_of_int i"
| "py_str repr v = repr v"

text \<open>
  \<open>json.dumps\<close> with its default options: ASCII output, the separators \<open>", "\<close> and
  \<open>": "\<close>.  Inside a string the backslash, the double quote and the control characters
  with a short form get that form; a code point outside the printable ASCII range is
  written \<open>\u00XX\<close>.  An object is not serialisable.
\<close>

definition hex_digit :: "nat \<Rightarrow> char" where
  "hex_digit d = (if d < 10 then char_of (48 + d) else char_of (87 + d))"

definition json_escape_char :: "char \<Rightarrow> string" where
  "json_escape_char c =
     (let n = (of_char c :: nat)
      in if n = 92 then [CHR 0x5C, CHR 0x5C]
         else if n = 34 then [CHR 0x5C, CHR 0x22]
         else if n = 8 then [CHR 0x5C, CHR ''b'']
         else if n = 12 then [CHR 0x5C, CHR ''f'']
         else if n = 10 then [CHR 0x5C, CHR ''n'']
         else if n = 13 then [CHR 0x5C, CHR ''r'']
         else if n = 9 then [CHR 0x5C, CHR ''t'']
         else if 32 \<le> n \<and> n \<le> 126 then [c]
         else [CHR 0x5C, CHR ''u'', CHR ''0'', CHR ''0'', hex_digit (n div 16), hex_digit (n mod 16)])"

definition json_string :: "string \<Rightarrow> string" where
  "json_string s = [CHR 0x22] @ concat (map json_escape_char s) @ [CHR 0x22]"

fun join :: "string \<Rightarrow> string list \<Rightarrow> string" where
  "join sep [] = []"
| "join sep [x] = x"
| "join sep (x # y # ys) = x @ sep @ join sep (y # ys)"

fun json_dumps :: "pyval \<Rightarrow> exn + string"
  and json_dumps_items :: "pyval list \<Rightarrow> exn + string list"
  and json_dumps_pairs :: "(string \<times> pyval) list \<Rightarrow> exn + string list"
where
  "json_dumps PNone = Inr ''null''"
| "json_dumps (PBool b) = Inr (if b then ''true'' else ''false'')"
| "json_dumps (PInt i) = Inr (str_of_int i)"
| "json_dumps (PStr s) = Inr (json_string s)"
| "json_dumps (PList xs) =
     (case json_dumps_items xs of
        Inl ex \<Rightarrow> Inl ex
      | Inr ss \<Rightarrow> Inr (''['' @ join '', '' ss @ '']''))"
| "json_dumps (PDict kvs) =
     (case json_dumps_pairs kvs of
        Inl ex \<Rightarrow> Inl ex
      | Inr ss \<Rightarrow> Inr (''{'' @ join '', '' ss @ ''}''))"
| "json_dumps (PObj attrs) = Inl TypeError"
| "json_dumps_items [] = Inr []"
| "json_dumps_items (x # xs) =
     (case json_dumps x of
        Inl ex \<Rightarrow> Inl ex
      | Inr s \<Rightarrow>
          (case json_dumps_items xs of
             Inl ex \<Rightarrow> Inl ex
           | Inr ss \<Rightarrow> Inr (s # ss)))"
| "json_dumps_pairs [] = Inr []"
| "json_dumps_pairs (kv # kvs) =
     (case json_dumps (snd kv) of
        Inl ex \<Rightarrow> Inl ex
      | Inr s \<Rightarrow>
          (case json_dumps_pairs kvs of
             Inl ex \<Rightarrow> Inl ex
           | Inr ss \<Rightarrow> Inr ((json_string (fst kv) @ '': '' @ s) # ss)))"

text \<open>
  The loop of \<open>_dump_content\<close> over the items, \<open>json_serializable\<close> being the list built so
  far.  An item is read with \<open>item.get\<close>, so an item that is not a dictionary raises, and
  so does an image item whose \<open>source\<close> is not a dictionary.
\<close>

fun dump_items :: "env \<Rightarrow> pyval list \<Rightarrow> pyval list \<Rightarrow> exn + pyval list" where
  "dump_items e [] json_serializable = Inr json_serializable"
| "dump_items e (item # items) json_serializable =
     (case py_get item ''type'' of
        Inl ex \<Rightarrow> Inl ex
      | Inr ty \<Rightarrow>
          if ty = PStr ''text'' then
            (case py_get item ''text'' of
               Inl ex \<Rightarrow> Inl ex
             | Inr txt \<Rightarrow>
                 dump_items e items
                   (json_serializable @ [PDict [(''type'', PStr ''text''), (''text'', txt)]]))
          else if ty = PStr ''image'' then
            (case py_get item ''source'' of
               Inl ex \<Rightarrow> Inl ex
             | Inr source \<Rightarrow>
                 (case py_get source ''type'' of
                    Inl ex \<Rightarrow> Inl ex
                  | Inr source_type \<Rightarrow>
                      (case py_get source ''media_type'' of
                         Inl ex \<Rightarrow> Inl ex
                       | Inr media_type \<Rightarrow>
                           (case py_get source ''data'' of
                              Inl ex \<Rightarrow> Inl ex
                            | Inr data \<Rightarrow>
                                dump_items e items
                                  (json_serializable @
                                   [PDict [(''type'', PStr ''image''),
                                           (''source'',
                                            PDict [(''type'', source_type),
                                                   (''media_type'', media_type),
                                                   (''data'', PStr (py_str (py_repr e) data))])]])))))
          else dump_items e items json_serializable)"

definition dump_content :: "env \<Rightarrow> pyval \<Rightarrow> exn + pyval" where
  "dump_content e content =
     (case content of
        PStr s \<Rightarrow> Inr (PStr s)
      | _ \<Rightarrow>
          (case py_iter content of
             Inl ex \<Rightarrow> Inl ex
           | Inr items \<Rightarrow>
               (case dump_items e items [] of
                  Inl ex \<Rightarrow> Inl ex
                | Inr json_serializable \<Rightarrow>
                    (case json_dumps (PList json_serializable) of
                       Inl ex \<Rightarrow> Inl ex
                     | Inr s \<Rightarrow> Inr (PStr s)))))"

section \<open>Spans\<close>

text \<open>
  A span as the tracer keeps it: its name and kind, the attributes written to it (a
  dictionary: writing a key again replaces its value), its status, whether it records,
  and whether it has been ended.  The tracer is not part of this repository; \<open>sampling\<close>
  says whether the spans it starts record.
\<close>

datatype span_kind = INTERNAL | CLIENT

datatype status_code = UNSET | OK | ERROR

record span =
  name :: string
  kind :: span_kind
  attributes :: "(string \<times> pyval) list"
  status :: status_code
  recording :: bool
  ended :: bool

record tracer =
  instrumenting_module :: string
  library_version :: string
  sampling :: bool

text \<open>What the wrapper leaves behind: the spans it ended and the warnings it logged.\<close>

record telemetry =
  spans :: "span list"
  warnings :: "(string \<times> exn) list"

definition start_span :: "tracer \<Rightarrow> string \<Rightarrow> span_kind \<Rightarrow> (string \<times> pyval) list \<Rightarrow> span" where
  "start_span t n k attrs =
     \<lparr>name = n, kind = k, attributes = attrs, status = UNSET,
      recording = sampling t, ended = False\<rparr>"

definition set_attribute :: "span \<Rightarrow> string \<Rightarrow> pyval \<Rightarrow> span" where
  "set_attribute s key v = s\<lparr>attributes := AList.update key v (attributes s)\<rparr>"

definition set_status :: "span \<Rightarrow> status_code \<Rightarrow> span" where
  "set_status s c = s\<lparr>status := c\<rparr>"

text \<open>
  Leaving the \<open>with tracer.start_as_current_span(...)\<close> block ends the span on every
  path.  When an exception leaves the block, the tracer's defaults also mark a recording
  span as failed before the exception goes on.
\<close>

definition exit_span :: "span \<Rightarrow> exn option \<Rightarrow> span" where
  "exit_span s raised =
     (case raised of
        None \<Rightarrow> s\<lparr>ended := True\<rparr>
      | Some ex \<Rightarrow> (if recording s then s\<lparr>status := ERROR, ended := True\<rparr>
                   else s\<lparr>ended := True\<rparr>))"

definition finish :: "telemetry \<Rightarrow> span \<Rightarrow> telemetry" where
  "finish tel s = tel\<lparr>spans := spans tel @ [s]\<rparr>"

definition warning :: "telemetry \<Rightarrow> string \<Rightarrow> exn \<Rightarrow> telemetry" where
  "warning tel msg ex = tel\<lparr>warnings := warnings tel @ [(msg, ex)]\<rparr>"

subsection \<open>Attribute names\<close>

text \<open>
  Modelled from the spec: the constants of \<open>SpanAttributes\<close> and
  \<open>LLMRequestTypeValues\<close> belong to the semantic-conventions package, which is not
  among the source files; their values are the dotted keys the specification lists as
  the span attribute namespace.
\<close>

definition LLM_VENDOR :: string where
  "LLM_VENDOR = ''llm.vendor''"

definition LLM_REQUEST_TYPE :: string where
  "LLM_REQUEST_TYPE = ''llm.request.type''"

definition LLM_REQUEST_MODEL :: string where
  "LLM_REQUEST_MODEL = ''llm.request.model''"

definition LLM_REQUEST_MAX_TOKENS :: string where
  "LLM_REQUEST_MAX_TOKENS = ''llm.request.max_tokens''"

definition LLM_TEMPERATURE :: string where
  "LLM_TEMPERATURE = ''llm.temperature''"

definition LLM_TOP_P :: string where
  "LLM_TOP_P = ''llm.top_p''"

definition LLM_FREQUENCY_PENALTY :: string where
  "LLM_FREQUENCY_PENALTY = ''llm.frequency_penalty''"

definition LLM_PRESENCE_PENALTY :: string where
  "LLM_PRESENCE_PENALTY = ''llm.presence_penalty''"

definition LLM_PROMPTS :: string where
  "LLM_PROMPTS = ''llm.prompts''"

definition LLM_COMPLETIONS :: string where
  "LLM_COMPLETIONS = ''llm.completions''"

definition LLM_RESPONSE_MODEL :: string where
  "LLM_RESPONSE_MODEL = ''llm.response.model''"

definition LLM_USAGE_PROMPT_TOKENS :: string where
  "LLM_USAGE_PROMPT_TOKENS = ''llm.usage.prompt_tokens''"

definition LLM_USAGE_COMPLETION_TOKENS :: string where
  "LLM_USAGE_COMPLETION_TOKENS = ''llm.usage.completion_tokens''"

definition LLM_USAGE_TOTAL_TOKENS :: string where
  "LLM_USAGE_TOTAL_TOKENS = ''llm.usage.total_tokens''"

definition COMPLETION_value :: string where
  "COMPLETION_value = ''completion''"

text \<open>The context key of the instrumentation utilities that suppresses instrumentation.\<close>

definition SUPPRESS_INSTRUMENTATION_KEY :: string where
  "SUPPRESS_INSTRUMENTATION_KEY = ''suppress_instrumentation''"

section \<open>Writing attributes\<close>

definition set_span_attribute :: "span \<Rightarrow> string \<Rightarrow> pyval \<Rightarrow> span" where
  "set_span_attribute span nm v =
     (if v \<noteq> PNone then (if v \<noteq> PStr [] then set_attribute span nm v else span)
      else span)"

text \<open>
  A function that writes attributes returns the span as it has left it together with
  the exception that ended it early, if any: what was written before an exception stays
  written.
\<close>

text \<open>The loop of \<open>_set_input_attributes\<close> over \<open>enumerate(kwargs.get("messages"))\<close>.\<close>

fun set_prompt_messages :: "env \<Rightarrow> span \<Rightarrow> nat \<Rightarrow> pyval list \<Rightarrow> span \<times> exn option" where
  "set_prompt_messages e span i [] = (span, None)"
| "set_prompt_messages e span i (message # rest) =
     (case py_get message ''content'' of
        Inl ex \<Rightarrow> (span, Some ex)
      | Inr content \<Rightarrow>
          (case dump_content e content of
             Inl ex \<Rightarrow> (span, Some ex)
           | Inr dumped \<Rightarrow>
               set_prompt_messages e
                 (set_span_attribute span (LLM_PROMPTS @ ''.'' @ str_of_nat i @ ''.user'') dumped)
                 (Suc i) rest))"

definition set_input_attributes :: "env \<Rightarrow> span \<Rightarrow> (string \<times> pyval) list \<Rightarrow> span \<times> exn option" where
  "set_input_attributes e span0 kwargs =
     (let span1 = set_span_attribute span0 LLM_REQUEST_MODEL (dict_get kwargs ''model'');
          span2 = set_span_attribute span1 LLM_REQUEST_MAX_TOKENS
                    (dict_get kwargs ''max_tokens_to_sample'');
          span3 = set_span_attribute span2 LLM_TEMPERATURE (dict_get kwargs ''temperature'');
          span4 = set_span_attribute span3 LLM_TOP_P (dict_get kwargs ''top_p'');
          span5 = set_span_attribute span4 LLM_FREQUENCY_PENALTY
                    (dict_get kwargs ''frequency_penalty'');
          span6 = set_span_attribute span5 LLM_PRESENCE_PENALTY
                    (dict_get kwargs ''presence_penalty'')
      in if truthy (should_send_prompts e) then
           (if dict_get kwargs ''prompt'' \<noteq> PNone then
              (set_span_attribute span6 (LLM_PROMPTS @ ''.0.user'') (dict_get kwargs ''prompt''),
               None)
            else if dict_get kwargs ''messages'' \<noteq> PNone then
              (case py_iter (dict_get kwargs ''messages'') of
                 Inl ex \<Rightarrow> (span6, Some ex)
               | Inr messages \<Rightarrow> set_prompt_messages e span6 0 messages)
            else (span6, None))
         else (span6, None))"

text \<open>The loop of \<open>_set_span_completions\<close> over \<open>enumerate(response.get("content"))\<close>.\<close>

fun set_completion_contents :: "span \<Rightarrow> nat \<Rightarrow> pyval list \<Rightarrow> span \<times> exn option" where
  "set_completion_contents span i [] = (span, None)"
| "set_completion_contents span i (content # rest) =
     (case py_getattr content ''text'' of
        Inl ex \<Rightarrow> (span, Some ex)
      | Inr txt \<Rightarrow>
          set_completion_contents
            (set_span_attribute span (LLM_COMPLETIONS @ ''.'' @ str_of_nat i @ ''.content'') txt)
            (Suc i) rest)"

definition set_span_completions :: "span \<Rightarrow> (string \<times> pyval) list \<Rightarrow> span \<times> exn option" where
  "set_span_completions span0 response =
     (let index = (0::nat);
          prefix = LLM_COMPLETIONS @ ''.'' @ str_of_nat index;
          span1 = set_span_attribute span0 (prefix @ ''.finish_reason'')
                    (dict_get response ''stop_reason'')
      in if truthy (dict_get response ''completion'') then
           (set_span_attribute span1 (prefix @ ''.content'') (dict_get response ''completion''),
            None)
         else if truthy (dict_get response ''content'') then
           (case py_iter (dict_get response ''content'') of
              Inl ex \<Rightarrow> (span1, Some ex)
            | Inr contents \<Rightarrow> set_completion_contents span1 0 contents)
         else (span1, None))"

section \<open>Response attributes and token usage\<close>

text \<open>
  The client of the instrumented library: the wrapper uses its token counter only.  The
  counter is external; it returns a count or raises.
\<close>

record anthropic_client =
  count_tokens :: "pyval \<Rightarrow> exn + int"

text \<open>The resource object a wrapped method is bound to; \<open>client\<close> is its \<open>_client\<close>.\<close>

record resource =
  client :: anthropic_client

text \<open>
  \<open>[anthropic.count_tokens(m.get("content")) for m in messages]\<close>: the counts in order,
  up to the first message that cannot be read or counted.
\<close>

fun count_each :: "anthropic_client \<Rightarrow> pyval list \<Rightarrow> exn + int list" where
  "count_each anthropic [] = Inr []"
| "count_each anthropic (m # ms) =
     (case py_get m ''content'' of
        Inl ex \<Rightarrow> Inl ex
      | Inr content \<Rightarrow>
          (case count_tokens anthropic content of
             Inl ex \<Rightarrow> Inl ex
           | Inr n \<Rightarrow>
               (case count_each anthropic ms of
                  Inl ex \<Rightarrow> Inl ex
                | Inr ns \<Rightarrow> Inr (n # ns))))"

text \<open>\<open>v[0]\<close>.\<close>

fun py_first :: "pyval \<Rightarrow> exn + pyval" where
  "py_first (PList []) = Inl IndexError"
| "py_first (PList (x # xs)) = Inr x"
| "py_first (PStr []) = Inl IndexError"
| "py_first (PStr (c # cs)) = Inr (PStr [c])"
| "py_first (PDict d) = Inl KeyError"
| "py_first v = Inl TypeError"

text \<open>The first block of \<open>_set_token_usage\<close>: \<open>prompt_tokens\<close>.\<close>

definition prompt_token_count :: "anthropic_client \<Rightarrow> (string \<times> pyval) list \<Rightarrow> exn + int" where
  "prompt_token_count anthropic request =
     (if truthy (dict_get request ''prompt'') then
        count_tokens anthropic (dict_get request ''prompt'')
      else if truthy (dict_get request ''messages'') then
        (case py_iter (dict_get request ''messages'') of
           Inl ex \<Rightarrow> Inl ex
         | Inr ms \<Rightarrow>
             (case count_each anthropic ms of
                Inl ex \<Rightarrow> Inl ex
              | Inr ns \<Rightarrow> Inr (sum_list ns)))
      else Inr 0)"

text \<open>The second block of \<open>_set_token_usage\<close>: \<open>completion_tokens\<close>.\<close>

definition completion_token_count :: "anthropic_client \<Rightarrow> (string \<times> pyval) list \<Rightarrow> exn + int" where
  "completion_token_count anthropic response =
     (if truthy (dict_get response ''completion'') then
        count_tokens anthropic (dict_get response ''completion'')
      else if truthy (dict_get response ''content'') then
        (case py_first (dict_get response ''content'') of
           Inl ex \<Rightarrow> Inl ex
         | Inr block \<Rightarrow>
             (case py_getattr block ''text'' of
                Inl ex \<Rightarrow> Inl ex
              | Inr txt \<Rightarrow> count_tokens anthropic txt))
      else Inr 0)"

definition set_token_usage ::
  "span \<Rightarrow> anthropic_client \<Rightarrow> (string \<times> pyval) list \<Rightarrow> pyval \<Rightarrow> span \<times> exn option" where
  "set_token_usage span0 anthropic request response0 =
     (case as_dict response0 of
        Inl ex \<Rightarrow> (span0, Some ex)
      | Inr response \<Rightarrow>
          (case prompt_token_count anthropic request of
             Inl ex \<Rightarrow> (span0, Some ex)
           | Inr prompt_tokens \<Rightarrow>
               (case completion_token_count anthropic response of
                  Inl ex \<Rightarrow> (span0, Some ex)
                | Inr completion_tokens \<Rightarrow>
                    (let total_tokens = prompt_tokens + completion_tokens;
                         span1 = set_span_attribute span0 LLM_USAGE_PROMPT_TOKENS
                                   (PInt prompt_tokens);
                         span2 = set_span_attribute span1 LLM_USAGE_COMPLETION_TOKENS
                                   (PInt completion_tokens);
                         span3 = set_span_attribute span2 LLM_USAGE_TOTAL_TOKENS
                                   (PInt total_tokens)
                     in (span3, None)))))"

text \<open>
  The usage block of \<open>_set_response_attributes\<close>.  The two counts are written before
  their sum is computed, so a sum that raises leaves them written.
\<close>

definition set_native_usage :: "span \<Rightarrow> pyval \<Rightarrow> span \<times> exn option" where
  "set_native_usage span0 usage =
     (case py_getattr usage ''input_tokens'' of
        Inl ex \<Rightarrow> (span0, Some ex)
      | Inr prompt_tokens \<Rightarrow>
          (case py_getattr usage ''output_tokens'' of
             Inl ex \<Rightarrow> (span0, Some ex)
           | Inr completion_tokens \<Rightarrow>
               (let span1 = set_span_attribute span0 LLM_USAGE_PROMPT_TOKENS prompt_tokens;
                    span2 = set_span_attribute span1 LLM_USAGE_COMPLETION_TOKENS
                              completion_tokens
                in case py_add prompt_tokens completion_tokens of
                     Inl ex \<Rightarrow> (span2, Some ex)
                   | Inr total_tokens \<Rightarrow>
                       (set_span_attribute span2 LLM_USAGE_TOTAL_TOKENS total_tokens, None))))"

definition set_response_attributes :: "env \<Rightarrow> span \<Rightarrow> pyval \<Rightarrow> span \<times> exn option" where
  "set_response_attributes e span0 response0 =
     (case as_dict response0 of
        Inl ex \<Rightarrow> (span0, Some ex)
      | Inr response \<Rightarrow>
          (let span1 = set_span_attribute span0 LLM_RESPONSE_MODEL (dict_get response ''model'')
           in case (if truthy (dict_get response ''usage'')
                    then set_native_usage span1 (dict_get response ''usage'')
                    else (span1, None)) of
                (span2, Some ex) \<Rightarrow> (span2, Some ex)
              | (span2, None) \<Rightarrow>
                  (if truthy (should_send_prompts e) then set_span_completions span2 response
                   else (span2, None))))"

section \<open>The call wrapper\<close>

text \<open>An entry of \<open>WRAPPED_METHODS\<close>; the fields are the keys of the dictionary.\<close>

record target =
  wrap_package :: string
  wrap_object :: string
  wrap_method :: string
  span_name :: string

definition WRAPPED_METHODS :: "target list" where
  "WRAPPED_METHODS =
     [\<lparr>wrap_package = ''anthropic.resources.completions'', wrap_object = ''Completions'',
       wrap_method = ''create'', span_name = ''anthropic.completion''\<rparr>,
      \<lparr>wrap_package = ''anthropic.resources.messages'', wrap_object = ''Messages'',
       wrap_method = ''create'', span_name = ''anthropic.completion''\<rparr>]"

text \<open>
  The part of \<open>_wrap\<close> after the call has returned a true response: the second
  \<open>try\<close> block, whose exception is logged, and the status.
\<close>

definition after_response ::
  "env \<Rightarrow> span \<Rightarrow> resource \<Rightarrow> (string \<times> pyval) list \<Rightarrow> pyval \<Rightarrow> telemetry \<Rightarrow> span \<times> telemetry" where
  "after_response e span0 inst kwargs response tel =
     (let (span1, tel1) =
            (if recording span0 then
               (case set_response_attributes e span0 response of
                  (s, Some ex) \<Rightarrow>
                    (s, warning tel ''Failed to set response attributes for anthropic span'' ex)
                | (s, None) \<Rightarrow>
                    (case set_token_usage s (client inst) kwargs response of
                       (s', Some ex) \<Rightarrow>
                         (s', warning tel ''Failed to set response attributes for anthropic span'' ex)
                     | (s', None) \<Rightarrow> (s', tel)))
             else (span0, tel))
      in (if recording span1 then set_status span1 OK else span1, tel1))"

text \<open>
  The part of \<open>_wrap\<close> before the call: the span is started with its two fixed
  attributes, and the first \<open>try\<close> block writes the request attributes, its
  exception being logged.
\<close>

definition before_call ::
  "env \<Rightarrow> tracer \<Rightarrow> target \<Rightarrow> (string \<times> pyval) list \<Rightarrow> telemetry \<Rightarrow> span \<times> telemetry" where
  "before_call e tr to_wrap kwargs tel =
     (let span0 = start_span tr (span_name to_wrap) CLIENT
                    [(LLM_VENDOR, PStr ''Anthropic''),
                     (LLM_REQUEST_TYPE, PStr COMPLETION_value)]
      in if recording span0 then
           (case set_input_attributes e span0 kwargs of
              (s, Some ex) \<Rightarrow>
                (s, warning tel ''Failed to set input attributes for anthropic span'' ex)
            | (s, None) \<Rightarrow> (s, tel))
         else (span0, tel))"

text \<open>
  \<open>_wrap\<close>.  The result is what the caller sees, a return value or an exception, with
  the telemetry after the call.  \<open>wrapped\<close> is the original method.
\<close>

definition wrap ::
  "env \<Rightarrow> tracer \<Rightarrow> target \<Rightarrow> (pyval list \<Rightarrow> (string \<times> pyval) list \<Rightarrow> exn + pyval) \<Rightarrow> resource \<Rightarrow>
   pyval list \<Rightarrow> (string \<times> pyval) list \<Rightarrow> telemetry \<Rightarrow> (exn + pyval) \<times> telemetry" where
  "wrap e tr to_wrap wrapped inst args kwargs tel =
     (if truthy (get_value e SUPPRESS_INSTRUMENTATION_KEY) then (wrapped args kwargs, tel)
      else
        (let (span1, tel1) = before_call e tr to_wrap kwargs tel
         in case wrapped args kwargs of
              Inl ex \<Rightarrow> (Inl ex, finish tel1 (exit_span span1 (Some ex)))
            | Inr response \<Rightarrow>
                (if truthy response then
                   (let (span2, tel2) = after_response e span1 inst kwargs response tel1
                    in (Inr response, finish tel2 (exit_span span2 None)))
                 else (Inr response, finish tel1 (exit_span span1 None)))))"

section \<open>Installing and removing the wrappers\<close>

text \<open>
  A method implementation is either a function of the client library, named by its
  qualified name, or the wrapper object put around an implementation, which keeps the
  wrapped one together with the tracer and the registry entry \<open>_wrap\<close> was given.
  The loaded modules map a module path to the classes of the module, and a class to its
  methods.
\<close>

datatype impl =
    Function string
  | FunctionWrapper impl tracer target

type_synonym class_dict = "(string \<times> impl) list"

type_synonym module_dict = "(string \<times> class_dict) list"

type_synonym modules = "(string \<times> module_dict) list"

definition lookup_method :: "modules \<Rightarrow> string \<Rightarrow> string \<Rightarrow> string \<Rightarrow> impl option" where
  "lookup_method ms module_path class_name attr =
     (case map_of ms module_path of
        None \<Rightarrow> None
      | Some md \<Rightarrow>
          (case map_of md class_name of
             None \<Rightarrow> None
           | Some cd \<Rightarrow> map_of cd attr))"

text \<open>\<open>setattr\<close> on a class that is there.\<close>

definition set_method :: "modules \<Rightarrow> string \<Rightarrow> string \<Rightarrow> string \<Rightarrow> impl \<Rightarrow> modules" where
  "set_method ms module_path class_name attr f =
     (case map_of ms module_path of
        None \<Rightarrow> ms
      | Some md \<Rightarrow>
          (case map_of md class_name of
             None \<Rightarrow> ms
           | Some cd \<Rightarrow>
               AList.update module_path
                 (AList.update class_name (AList.update attr f cd) md) ms))"

text \<open>\<open>s.rsplit(".", 1)\<close>, when \<open>s\<close> has a dot: the parts before and after the last dot.\<close>

definition rsplit_dot :: "string \<Rightarrow> (string \<times> string) option" where
  "rsplit_dot s =
     (if CHR ''.'' \<in> set s
      then Some (rev (tl (dropWhile (\<lambda>c. c \<noteq> CHR ''.'') (rev s))),
                 rev (takeWhile (\<lambda>c. c \<noteq> CHR ''.'') (rev s)))
      else None)"

text \<open>
  \<open>wrap_function_wrapper(module, name, wrapper)\<close> of the patching library, for a name
  \<open>Class.method\<close>: the method of the class of the module is replaced by a wrapper object
  around it.  A module that cannot be imported and a class or method that is not there
  raise.
\<close>

definition wrap_function_wrapper ::
  "modules \<Rightarrow> string \<Rightarrow> string \<Rightarrow> tracer \<Rightarrow> target \<Rightarrow> exn + modules" where
  "wrap_function_wrapper ms module_path nm tr to_wrap =
     (case map_of ms module_path of
        None \<Rightarrow> Inl ImportError
      | Some md \<Rightarrow>
          (case rsplit_dot nm of
             None \<Rightarrow> Inl AttributeError
           | Some (class_name, attr) \<Rightarrow>
               (case lookup_method ms module_path class_name attr of
                  None \<Rightarrow> Inl AttributeError
                | Some original \<Rightarrow>
                    Inr (set_method ms module_path class_name attr
                           (FunctionWrapper original tr to_wrap)))))"

text \<open>
  \<open>unwrap(obj, attr)\<close> of the instrumentation utilities, for \<open>obj\<close> a dotted path: the
  path is split at its last dot into a module path and a class name, the module is
  imported and the class looked up in it (both raise when they fail), and the attribute
  of the class, when it is a wrapper object, is set back to what it wraps.
\<close>

definition unwrap :: "modules \<Rightarrow> string \<Rightarrow> string \<Rightarrow> exn + modules" where
  "unwrap ms obj attr =
     (case rsplit_dot obj of
        None \<Rightarrow> Inl ImportError
      | Some (module_path, class_name) \<Rightarrow>
          (case map_of ms module_path of
             None \<Rightarrow> Inl ImportError
           | Some md \<Rightarrow>
               (case map_of md class_name of
                  None \<Rightarrow> Inl AttributeError
                | Some cd \<Rightarrow>
                    (case map_of cd attr of
                       Some (FunctionWrapper wrapped tr to_wrap) \<Rightarrow>
                         Inr (set_method ms module_path class_name attr wrapped)
                     | _ \<Rightarrow> Inr ms))))"

text \<open>
  \<open>get_tracer(__name__, __version__, tracer_provider)\<close>; the provider decides whether
  the spans of its tracers record.
\<close>

record tracer_provider =
  provider_sampling :: bool

definition get_tracer :: "string \<Rightarrow> string \<Rightarrow> tracer_provider \<Rightarrow> tracer" where
  "get_tracer nm version provider =
     \<lparr>instrumenting_module = nm, library_version = version,
      sampling = provider_sampling provider\<rparr>"

text \<open>
  The loops of \<open>_instrument\<close> and \<open>_uninstrument\<close> over the registry.  Each returns
  the modules as it has left them and the exception that ended it, if any.
\<close>

fun instrument_each :: "tracer \<Rightarrow> target list \<Rightarrow> modules \<Rightarrow> modules \<times> exn option" where
  "instrument_each tr [] ms = (ms, None)"
| "instrument_each tr (wrapped_method # rest) ms =
     (case wrap_function_wrapper ms (wrap_package wrapped_method)
             (wrap_object wrapped_method @ ''.'' @ wrap_method wrapped_method)
             tr wrapped_method of
        Inl ex \<Rightarrow> (ms, Some ex)
      | Inr ms' \<Rightarrow> instrument_each tr rest ms')"

definition instrument :: "string \<Rightarrow> tracer_provider \<Rightarrow> modules \<Rightarrow> modules \<times> exn option" where
  "instrument version provider ms =
     instrument_each (get_tracer ''opentelemetry.instrumentation.anthropic'' version provider)
       WRAPPED_METHODS ms"

fun uninstrument_each :: "target list \<Rightarrow> modules \<Rightarrow> modules \<times> exn option" where
  "uninstrument_each [] ms = (ms, None)"
| "uninstrument_each (wrapped_method # rest) ms =
     (case unwrap ms (''anthropic.resources.completions.'' @ wrap_object wrapped_method)
             (wrap_method wrapped_method) of
        Inl ex \<Rightarrow> (ms, Some ex)
      | Inr ms' \<Rightarrow> uninstrument_each rest ms')"

definition uninstrument :: "modules \<Rightarrow> modules \<times> exn option" where
  "uninstrument ms = uninstrument_each WRAPPED_METHODS ms"

text \<open>
  The two modules of the client library that the registry names, before installation:
  each defines its own resource class.
\<close>

definition anthropic_sdk :: modules where
  "anthropic_sdk =
     [(''anthropic.resources.completions'',
         [(''Completions'', [(''create'', Function ''Completions.create'')])]),
      (''anthropic.resources.messages'',
         [(''Messages'', [(''create'', Function ''Messages.create'')])])]"

section \<open>The specification's reading, and example calls\<close>

text \<open>
  The content-tracing policy in the specification's words: an unset variable enables,
  the value \<open>true\<close> in any letter case enables, every other value disables, and the
  context override enables whatever the variable says.
\<close>

definition content_tracing_as_claimed :: "env \<Rightarrow> bool" where
  "content_tracing_as_claimed e =
     ((case getenv e ''TRACELOOP_TRACE_CONTENT'' of
         None \<Rightarrow> True
       | Some v \<Rightarrow> lower v = ''true'')
      \<or> truthy (get_value e ''override_enable_content_tracing''))"

text \<open>The values \<open>_set_span_attribute\<close> lets through, and a span that holds no other.\<close>

definition writable :: "pyval \<Rightarrow> bool" where
  "writable v = (v \<noteq> PNone \<and> v \<noteq> PStr [])"

definition attrs_written_ok :: "span \<Rightarrow> bool" where
  "attrs_written_ok s = list_all (\<lambda>kv. writable (snd kv)) (attributes s)"

text \<open>
  The attribute names that describe a response: its model, the three usage counts, and
  everything under the completions prefix.
\<close>

definition response_key :: "string \<Rightarrow> bool" where
  "response_key k =
     (k = LLM_RESPONSE_MODEL \<or> k = LLM_USAGE_PROMPT_TOKENS \<or>
      k = LLM_USAGE_COMPLETION_TOKENS \<or> k = LLM_USAGE_TOTAL_TOKENS \<or>
      prefix (LLM_COMPLETIONS @ ''.'') k)"

text \<open>Environments: nothing set; the variable set to the empty string; suppression on.\<close>

definition env_default :: env where
  "env_default = \<lparr>environ = Map.empty, ctx_values = Map.empty, py_repr = (\<lambda>v. ''object'')\<rparr>"

definition env_empty_variable :: env where
  "env_empty_variable =
     \<lparr>environ = [''TRACELOOP_TRACE_CONTENT'' \<mapsto> []], ctx_values = Map.empty,
      py_repr = (\<lambda>v. ''object'')\<rparr>"

definition env_suppressed :: env where
  "env_suppressed =
     \<lparr>environ = Map.empty, ctx_values = [SUPPRESS_INSTRUMENTATION_KEY \<mapsto> PBool True],
      py_repr = (\<lambda>v. ''object'')\<rparr>"

text \<open>A recording tracer, the registry entry of the messages method, and no telemetry yet.\<close>

definition tracer_on :: tracer where
  "tracer_on =
     \<lparr>instrumenting_module = ''opentelemetry.instrumentation.anthropic'',
      library_version = ''0'', sampling = True\<rparr>"

definition messages_target :: target where
  "messages_target =
     \<lparr>wrap_package = ''anthropic.resources.messages'', wrap_object = ''Messages'',
      wrap_method = ''create'', span_name = ''anthropic.completion''\<rparr>"

definition no_telemetry :: telemetry where
  "no_telemetry = \<lparr>spans = [], warnings = []\<rparr>"

text \<open>A client whose token counter gives every text one token.\<close>

definition one_token_client :: resource where
  "one_token_client = \<lparr>client = \<lparr>count_tokens = (\<lambda>v. Inr 1)\<rparr>\<rparr>"

text \<open>An original method that raises, whatever it is given.\<close>

definition failing_call :: "pyval list \<Rightarrow> (string \<times> pyval) list \<Rightarrow> exn + pyval" where
  "failing_call args kwargs = Inl (ClientError ''overloaded'')"

section \<open>Content-tracing policy\<close>

lemma of_char_less_256: "(of_char c :: nat) < 256"
proof -
  have "(of_char c :: nat) mod 256 = of_char c" by simp
  then show ?thesis by (metis mod_less_divisor zero_less_numeral)
qed

text \<open>A small letter \<open>d\<close> is the lower case of itself and of its capital \<open>u\<close> only.\<close>

lemma lower_char_eq_iff:
  assumes d: "(of_char d :: nat) = m" and m: "97 \<le> m" "m \<le> 122"
    and u: "(of_char u :: nat) + 32 = m"
  shows "lower_char c = d \<longleftrightarrow> c = d \<or> c = u"
proof -
  define n where "n = (of_char c :: nat)"
  have lt: "n < 256" unfolding n_def by (rule of_char_less_256)
  have eq: "c = d \<longleftrightarrow> n = m"
    unfolding n_def d [symmetric] by simp
  have equ: "c = u \<longleftrightarrow> n + 32 = m"
    unfolding n_def u [symmetric] by simp
  have up: "char_of (n + 32) = d \<longleftrightarrow> (n + 32) mod 256 = m"
    unfolding d [symmetric] by (simp add: char_of_eq_iff take_bit_eq_mod)
  show ?thesis
  proof (cases "(65 \<le> n \<and> n \<le> 90) \<or> (192 \<le> n \<and> n \<le> 222 \<and> n \<noteq> 215)")
    case True
    then have lc: "lower_char c = char_of (n + 32)"
      by (simp add: lower_char_def Let_def n_def)
    have "n + 32 < 256" using True by arith
    then have "(n + 32) mod 256 = n + 32" by simp
    with up have "char_of (n + 32) = d \<longleftrightarrow> n + 32 = m" by simp
    moreover have "n \<noteq> m" using True m by arith
    ultimately show ?thesis using lc eq equ by simp
  next
    case False
    then have lc: "lower_char c = c"
      unfolding n_def lower_char_def Let_def by auto
    have "n + 32 \<noteq> m" using False m by arith
    then show ?thesis using lc equ by simp
  qed
qed

lemma lower_char_t: "lower_char c = CHR ''t'' \<longleftrightarrow> c = CHR ''t'' \<or> c = CHR ''T''"
  by (rule lower_char_eq_iff [where m = 116]) simp_all

lemma lower_char_r: "lower_char c = CHR ''r'' \<longleftrightarrow> c = CHR ''r'' \<or> c = CHR ''R''"
  by (rule lower_char_eq_iff [where m = 114]) simp_all

lemma lower_char_u: "lower_char c = CHR ''u'' \<longleftrightarrow> c = CHR ''u'' \<or> c = CHR ''U''"
  by (rule lower_char_eq_iff [where m = 117]) simp_all

lemma lower_char_e: "lower_char c = CHR ''e'' \<longleftrightarrow> c = CHR ''e'' \<or> c = CHR ''E''"
  by (rule lower_char_eq_iff [where m = 101]) simp_all

lemma lower_true: "lower ''true'' = ''true''"
  by (simp add: lower_def lower_char_def)

text \<open>The values that lower-case to \<open>true\<close> are its sixteen spellings in mixed case.\<close>

lemma lower_eq_true_iff:
  "lower v = ''true'' \<longleftrightarrow>
     (\<exists>a b c d. v = [a, b, c, d] \<and> a \<in> {CHR ''t'', CHR ''T''} \<and> b \<in> {CHR ''r'', CHR ''R''}
        \<and> c \<in> {CHR ''u'', CHR ''U''} \<and> d \<in> {CHR ''e'', CHR ''E''})"
proof -
  have "lower v = ''true'' \<longleftrightarrow>
     (\<exists>a b c d. v = [a, b, c, d] \<and> lower_char a = CHR ''t'' \<and> lower_char b = CHR ''r''
        \<and> lower_char c = CHR ''u'' \<and> lower_char d = CHR ''e'')"
    unfolding lower_def by (auto simp: map_eq_Cons_conv)
  then show ?thesis
    by (simp only: lower_char_t lower_char_r lower_char_u lower_char_e insert_iff empty_iff
        simp_thms)
qed

text \<open>
  C3, as the code has it: content tracing is on exactly when the environment variable is
  unset or empty, or its value lower-cases to \<open>true\<close>, or the context override is true.
\<close>

theorem content_tracing_enabled_iff:
  "truthy (should_send_prompts e) \<longleftrightarrow>
     (case getenv e ''TRACELOOP_TRACE_CONTENT'' of
        None \<Rightarrow> True
      | Some v \<Rightarrow> v = [] \<or> lower v = ''true'')
     \<or> truthy (get_value e ''override_enable_content_tracing'')"
  by (auto simp: should_send_prompts_def getenv_or_def lower_true split: option.splits)

text \<open>
  C3 as claimed fails: with the variable set to the empty string, a value that does not
  lower-case to \<open>true\<close>, and no override, content tracing is on.
\<close>

theorem content_tracing_empty_variable:
  "truthy (should_send_prompts env_empty_variable)
     \<noteq> content_tracing_as_claimed env_empty_variable"
  by (simp add: should_send_prompts_def getenv_or_def getenv_def get_value_def
      content_tracing_as_claimed_def env_empty_variable_def lower_def lower_char_def)

section \<open>Suppressed calls\<close>

text \<open>
  C4: while the suppression flag is set in the context, a wrapped call is the original
  call: its return value or exception is the result, no span is started or ended, and
  nothing is logged.
\<close>

theorem suppressed_call_is_original:
  "truthy (get_value e SUPPRESS_INSTRUMENTATION_KEY) \<Longrightarrow>
     wrap e tr to_wrap wrapped inst args kwargs tel = (wrapped args kwargs, tel)"
  by (simp add: wrap_def)

theorem suppressed_call_is_original_witness:
  "truthy (get_value env_suppressed SUPPRESS_INSTRUMENTATION_KEY) \<and>
   wrap env_suppressed tracer_on messages_target failing_call one_token_client [] [] no_telemetry
     = (Inl (ClientError ''overloaded''), no_telemetry)"
proof -
  have flag: "truthy (get_value env_suppressed SUPPRESS_INSTRUMENTATION_KEY)"
    by (simp add: get_value_def env_suppressed_def)
  show ?thesis
    using flag
      suppressed_call_is_original [OF flag, of tracer_on messages_target failing_call
        one_token_client "[]" "[]" no_telemetry]
    by (simp add: failing_call_def)
qed

end
